theory Spec2Isabelle
  imports Complex_Main
begin

section \<open>Values\<close>

text \<open>
  The match engine of \<^verbatim>\<open>axelrod/match.py\<close>. An action is \<^verbatim>\<open>Actions.C\<close> or
  \<^verbatim>\<open>Actions.D\<close>; the action record of a match is a list of pairs of actions.
  A player object is known to the engine by its identity only (Python hashes and compares
  objects by identity), so a player is a reference \<open>pref\<close>, and the cache key
  \<^verbatim>\<open>(players[0], players[1], turns)\<close> is a triple of two references and an integer.
  \<^verbatim>\<open>turns\<close> is a Python \<^verbatim>\<open>int\<close> (unbounded, possibly negative) and \<^verbatim>\<open>noise\<close> a number
  of which the engine only tests the truth value.
\<close>

datatype action = C | D

type_synonym interactions = "(action \<times> action) list"

type_synonym pref = nat

type_synonym cache_key = "pref \<times> pref \<times> int"

datatype error = IndexError | KeyError

text \<open>The value of \<^verbatim>\<open>noise or any(...)\<close> is a float or a bool; Python tests its truth.\<close>

datatype float_or_bool = PyFloat real | PyBool bool

fun truthy :: "float_or_bool \<Rightarrow> bool" where
  "truthy (PyFloat x) = (x \<noteq> 0)"
| "truthy (PyBool b) = b"

text \<open>
  The values of the \<^verbatim>\<open>match_attributes\<close> dictionary, which is kept in insertion order
  as a list of pairs: \<^verbatim>\<open>{'length': self.turns, 'game': self.game, 'noise': self.noise}\<close>.
\<close>

datatype 'g attr_value = AttrInt int | AttrFloat real | AttrGame 'g

type_synonym 'g attrs = "(string \<times> 'g attr_value) list"

text \<open>Indexing a Python list with a non-negative index raises IndexError out of range.\<close>

definition getitem :: "'a list \<Rightarrow> nat \<Rightarrow> error + 'a" where
  "getitem xs i = (if i < length xs then Inr (xs ! i) else Inl IndexError)"

section \<open>External collaborators\<close>

text \<open>
  Modelled from the spec: the classes \<^verbatim>\<open>Player\<close> and \<^verbatim>\<open>Game\<close> are not part of the sources at
  hand, so their methods are parameters of the model. \<open>'h\<close> is the state of all player
  objects (and of whatever random source they draw from), \<open>'g\<close> the type of games.
  \<^verbatim>\<open>p.reset()\<close>, \<^verbatim>\<open>p.play(q, noise)\<close> and \<^verbatim>\<open>p.set_match_attributes(**attrs)\<close> transform that
  state, \<^verbatim>\<open>p.history\<close> reads it. \<^verbatim>\<open>p.classifier['stochastic']\<close> is per-player static
  metadata (section 4.2 of the spec), so it does not depend on the state. \<^verbatim>\<open>Game()\<close> is the
  default game and \<^verbatim>\<open>game.score(pair)\<close> its payoff lookup.
\<close>

record ('h, 'g) ext =
  player_reset :: "pref \<Rightarrow> 'h \<Rightarrow> 'h"
  player_play :: "pref \<Rightarrow> pref \<Rightarrow> real \<Rightarrow> 'h \<Rightarrow> 'h"
  set_match_attributes :: "pref \<Rightarrow> 'g attrs \<Rightarrow> 'h \<Rightarrow> 'h"
  history :: "'h \<Rightarrow> pref \<Rightarrow> action list"
  classifier_stochastic :: "pref \<Rightarrow> bool"
  Game_default :: "'g"
  score :: "'g \<Rightarrow> action \<times> action \<Rightarrow> real \<times> real"

text \<open>
  Modelled from the spec: the class \<^verbatim>\<open>DeterministicCache\<close> is not part of the sources at
  hand. Section 6 of the spec gives its contract: membership test by key, indexed read,
  indexed write, and a \<^verbatim>\<open>mutable\<close> flag; a cache made with no argument is empty and mutable.
\<close>

record cache =
  data :: "cache_key \<rightharpoonup> interactions"
  mutable :: bool

definition DeterministicCache_new :: cache where
  "DeterministicCache_new = \<lparr>data = Map.empty, mutable = True\<rparr>"

definition cache_contains :: "cache \<Rightarrow> cache_key \<Rightarrow> bool" where
  "cache_contains c k = (data c k \<noteq> None)"

definition cache_getitem :: "cache \<Rightarrow> cache_key \<Rightarrow> error + interactions" where
  "cache_getitem c k = (case data c k of None \<Rightarrow> Inl KeyError | Some r \<Rightarrow> Inr r)"

definition cache_setitem :: "cache \<Rightarrow> cache_key \<Rightarrow> interactions \<Rightarrow> cache" where
  "cache_setitem c k v = c\<lparr>data := (data c)(k \<mapsto> v)\<rparr>"





section \<open>The match\<close>

text \<open>
  \<^verbatim>\<open>is_stochastic(players, noise)\<close> returns \<^verbatim>\<open>noise or any(p.classifier['stochastic'] ...)\<close>:
  the noise itself when it is truthy (nonzero), the bool otherwise.
\<close>

definition is_stochastic :: "('h, 'g) ext \<Rightarrow> pref list \<Rightarrow> real \<Rightarrow> float_or_bool" where
  "is_stochastic X ps nz =
     (if nz \<noteq> 0 then PyFloat nz else PyBool (list_ex (classifier_stochastic X) ps))"

text \<open>
  The attributes of a \<^verbatim>\<open>Match\<close> object. The cache is held by reference in Python; the
  record carries its current value, and a cache shared by two matches is passed from one
  to the other. \<open>players\<close> is the attribute \<^verbatim>\<open>_players\<close> behind the property.
\<close>

record 'g match =
  result :: interactions
  turns :: int
  cache_key :: cache_key
  noise :: real
  game :: 'g
  cache :: cache
  match_attributes :: "'g attrs"
  players :: "pref list"

text \<open>
  The setter of the property \<^verbatim>\<open>players\<close>: every player of the list, in order, is passed
  the match attributes, and the list is stored.
\<close>

definition players_setter ::
  "('h, 'g) ext \<Rightarrow> 'g match \<Rightarrow> pref list \<Rightarrow> 'h \<Rightarrow> 'g match \<times> 'h" where
  "players_setter X m ps h =
     (m\<lparr>players := ps\<rparr>,
      fold (\<lambda>p. set_match_attributes X p (match_attributes m)) ps h)"

text \<open>
  \<^verbatim>\<open>Match.__init__\<close>. \<^verbatim>\<open>players[0]\<close> and \<^verbatim>\<open>players[1]\<close> raise IndexError on a sequence of
  fewer than two players; nothing else in the constructor raises, and neither \<^verbatim>\<open>turns\<close> nor
  \<^verbatim>\<open>noise\<close> is looked at. The optional arguments are \<open>None\<close> or \<open>Some\<close> value.
\<close>

definition Match_init ::
  "('h, 'g) ext \<Rightarrow> pref list \<Rightarrow> int \<Rightarrow> 'g option \<Rightarrow> cache option \<Rightarrow> real \<Rightarrow> 'g attrs option
     \<Rightarrow> 'h \<Rightarrow> error + ('g match \<times> 'h)" where
  "Match_init X ps t g dc nz ma h =
     (case getitem ps 0 of Inl e \<Rightarrow> Inl e | Inr p0 \<Rightarrow>
     (case getitem ps 1 of Inl e \<Rightarrow> Inl e | Inr p1 \<Rightarrow>
        (let gm = (case g of None \<Rightarrow> Game_default X | Some g' \<Rightarrow> g');
             ch = (case dc of None \<Rightarrow> DeterministicCache_new | Some c \<Rightarrow> c);
             av = (case ma of
                     None \<Rightarrow> [(''length'', AttrInt t), (''game'', AttrGame gm), (''noise'', AttrFloat nz)]
                   | Some a \<Rightarrow> a)
         in Inr (players_setter X
                   \<lparr>result = [], turns = t, cache_key = (p0, p1, t), noise = nz, game = gm,
                    cache = ch, match_attributes = av, players = []\<rparr> ps h))))"

text \<open>The property \<^verbatim>\<open>_stochastic\<close>, computed from the current players and noise.\<close>

definition stochastic :: "('h, 'g) ext \<Rightarrow> 'g match \<Rightarrow> float_or_bool" where
  "stochastic X m = is_stochastic X (players m) (noise m)"

text \<open>The property \<^verbatim>\<open>_cache_update_required\<close>.\<close>

definition cache_update_required :: "('h, 'g) ext \<Rightarrow> 'g match \<Rightarrow> bool" where
  "cache_update_required X m =
     (\<not> truthy (PyFloat (noise m)) \<and> mutable (cache m) \<and>
      \<not> list_ex (classifier_stochastic X) (players m))"

text \<open>
  The loop \<^verbatim>\<open>while turn < self.turns: turn += 1; self.players[0].play(self.players[1], self.noise)\<close>.
  It returns the final counter and the players' state.
\<close>

function play_loop :: "('h, 'g) ext \<Rightarrow> 'g match \<Rightarrow> int \<Rightarrow> 'h \<Rightarrow> error + (int \<times> 'h)" where
  "play_loop X m turn h =
     (if turn < turns m then
        (case getitem (players m) 0 of Inl e \<Rightarrow> Inl e | Inr p0 \<Rightarrow>
        (case getitem (players m) 1 of Inl e \<Rightarrow> Inl e | Inr p1 \<Rightarrow>
           play_loop X m (turn + 1) (player_play X p0 p1 (noise m) h)))
      else Inr (turn, h))"
  by pat_completeness auto
termination
  by (relation "measure (\<lambda>(X, m, turn, h). nat (turns m - turn))") auto

declare play_loop.simps [simp del]

text \<open>
  \<^verbatim>\<open>Match.play\<close>. It returns the record, the match with \<^verbatim>\<open>self.result\<close> (and the cache)
  updated, and the players' state; an exception leaves through \<open>Inl\<close>.
\<close>

definition play ::
  "('h, 'g) ext \<Rightarrow> 'g match \<Rightarrow> 'h \<Rightarrow> error + (interactions \<times> 'g match \<times> 'h)" where
  "play X m h =
     (if truthy (stochastic X m) \<or> \<not> cache_contains (cache m) (cache_key m) then
        (case play_loop X m 0 (fold (player_reset X) (players m) h) of
           Inl e \<Rightarrow> Inl e
         | Inr (turn, h') \<Rightarrow>
            (case getitem (players m) 0 of Inl e \<Rightarrow> Inl e | Inr p0 \<Rightarrow>
            (case getitem (players m) 1 of Inl e \<Rightarrow> Inl e | Inr p1 \<Rightarrow>
               (let r = zip (history X h' p0) (history X h' p1);
                    c = (if cache_update_required X m
                         then cache_setitem (cache m) (cache_key m) r else cache m)
                in Inr (r, m\<lparr>result := r, cache := c\<rparr>, h')))))
      else
        (case cache_getitem (cache m) (cache_key m) of
           Inl e \<Rightarrow> Inl e
         | Inr r \<Rightarrow> Inr (r, m\<lparr>result := r\<rparr>, h)))"



text \<open>\<^verbatim>\<open>Match.__len__\<close>.\<close>

definition Match_len :: "'g match \<Rightarrow> int" where
  "Match_len m = turns m"

section \<open>Contracts of the collaborators and invariants of a match\<close>

text \<open>
  The contract of \<^verbatim>\<open>Player.reset\<close> (section 6 of the spec: it clears the per-match state):
  the history of the player reset is empty afterwards, the other histories are kept.
\<close>

definition reset_clears_history :: "('h, 'g) ext \<Rightarrow> bool" where
  "reset_clears_history X =
     (\<forall>p q h. history X (player_reset X p h) q = (if q = p then [] else history X h q))"

text \<open>
  The contract of \<^verbatim>\<open>Player.play\<close> for the two players of a match: one call appends one
  action to the history of each.
\<close>

definition play_appends_one :: "('h, 'g) ext \<Rightarrow> 'g match \<Rightarrow> bool" where
  "play_appends_one X m =
     (\<forall>h. length (history X (player_play X (players m ! 0) (players m ! 1) (noise m) h) (players m ! 0))
            = Suc (length (history X h (players m ! 0))) \<and>
          length (history X (player_play X (players m ! 0) (players m ! 1) (noise m) h) (players m ! 1))
            = Suc (length (history X h (players m ! 1))))"

text \<open>
  A cache whose entries were written by the engine: the record under a key has as many
  entries as the key's turn count.
\<close>

definition cache_written_by_engine :: "cache \<Rightarrow> bool" where
  "cache_written_by_engine c =
     (\<forall>p q t r. data c (p, q, t) = Some r \<longrightarrow> int (length r) = t)"

text \<open>
  What the constructor establishes and no method changes: at least two players, and a
  cache key whose turn count is \<^verbatim>\<open>self.turns\<close>.
\<close>

definition constructed :: "'g match \<Rightarrow> bool" where
  "constructed m = (2 \<le> length (players m) \<and> snd (snd (cache_key m)) = turns m)"

section \<open>A concrete setting\<close>

text \<open>
  Three players for evaluating the engine: player 0 always cooperates, player 1 always
  defects, player 2 cooperates and is classified stochastic. The state holds every
  player's history and a log of the attribute names each player was passed. A game is
  its payoffs (R, P, S, T).
\<close>

record ex_state =
  hist :: "pref \<Rightarrow> action list"
  attr_log :: "(pref \<times> string list) list"

type_synonym ex_game = "real \<times> real \<times> real \<times> real"

definition ex_move :: "pref \<Rightarrow> action" where
  "ex_move p = (if p = 1 then D else C)"

fun ex_score :: "ex_game \<Rightarrow> action \<times> action \<Rightarrow> real \<times> real" where
  "ex_score (R, P, S, T) (C, C) = (R, R)"
| "ex_score (R, P, S, T) (C, D) = (S, T)"
| "ex_score (R, P, S, T) (D, C) = (T, S)"
| "ex_score (R, P, S, T) (D, D) = (P, P)"

definition ex_play :: "pref \<Rightarrow> pref \<Rightarrow> real \<Rightarrow> ex_state \<Rightarrow> ex_state" where
  "ex_play p q nz h =
     (let h1 = h\<lparr>hist := (hist h)(p := hist h p @ [ex_move p])\<rparr>
      in h1\<lparr>hist := (hist h1)(q := hist h1 q @ [ex_move q])\<rparr>)"

definition ex_ext :: "(ex_state, ex_game) ext" where
  "ex_ext =
     \<lparr>player_reset = (\<lambda>p h. h\<lparr>hist := (hist h)(p := [])\<rparr>),
      player_play = ex_play,
      set_match_attributes = (\<lambda>p a h. h\<lparr>attr_log := attr_log h @ [(p, map fst a)]\<rparr>),
      history = hist,
      classifier_stochastic = (\<lambda>p. p = 2),
      Game_default = (3, 1, 0, 5),
      score = ex_score\<rparr>"

definition ex_h0 :: ex_state where
  "ex_h0 = \<lparr>hist = (\<lambda>p. []), attr_log = []\<rparr>"

text \<open>The match that \<^verbatim>\<open>Match((p, q), turns=t, noise=nz)\<close> builds on an empty cache.\<close>

definition ex_match :: "pref \<Rightarrow> pref \<Rightarrow> int \<Rightarrow> real \<Rightarrow> ex_game match" where
  "ex_match p q t nz =
     \<lparr>result = [], turns = t, cache_key = (p, q, t), noise = nz, game = (3, 1, 0, 5),
      cache = DeterministicCache_new,
      match_attributes = [(''length'', AttrInt t), (''game'', AttrGame (3, 1, 0, 5)),
                          (''noise'', AttrFloat nz)],
      players = [p, q]\<rparr>"

text \<open>
  The players' state after the constructor has passed the default attributes to players 0
  and 1 (\<open>ex_h1\<close>), after two turns of player 0 against player 1 (\<open>ex_h2\<close>) and after two
  turns of player 0 against player 2 (\<open>ex_h3\<close>); the match of players 0 and 1 after its
  first \<^verbatim>\<open>play()\<close>; a cache that holds an entry for players 0 and 2, one that
  holds the empty record for players 0 and 1 and no turns, one that holds an entry for
  players 0 and 1 and two turns, and one, not written by the engine, that holds a record
  of one turn for players 0 and 1 and no turns.
\<close>

definition ex_h1 :: ex_state where
  "ex_h1 = \<lparr>hist = (\<lambda>p. []),
            attr_log = [(0, [''length'', ''game'', ''noise'']), (1, [''length'', ''game'', ''noise''])]\<rparr>"

definition ex_h2 :: ex_state where
  "ex_h2 = ex_h1\<lparr>hist := (\<lambda>p. if p = 0 then [C, C] else if p = 1 then [D, D] else [])\<rparr>"

definition ex_h3 :: ex_state where
  "ex_h3 = ex_h1\<lparr>hist := (\<lambda>p. if p = 0 \<or> p = 2 then [C, C] else [])\<rparr>"

definition ex_played :: "ex_game match" where
  "ex_played = (ex_match 0 1 2 0)\<lparr>result := [(C, D), (C, D)],
      cache := cache_setitem DeterministicCache_new (0, 1, 2) [(C, D), (C, D)]\<rparr>"

definition ex_cache :: cache where
  "ex_cache = cache_setitem DeterministicCache_new (0, 2, 2) [(D, D), (D, D)]"

definition ex_cache0 :: cache where
  "ex_cache0 = cache_setitem DeterministicCache_new (0, 1, 0) []"

definition ex_cache01 :: cache where
  "ex_cache01 = cache_setitem DeterministicCache_new (0, 1, 2) [(D, D), (D, D)]"

definition ex_cache_foreign :: cache where
  "ex_cache_foreign = cache_setitem DeterministicCache_new (0, 1, 0) [(D, D)]"

section \<open>The loop, the constructor and \<^verbatim>\<open>play\<close> in closed form\<close>

lemma play_loop_two_players:
  "2 \<le> length (players m) \<Longrightarrow>
   play_loop X m turn h =
     Inr (max turn (turns m),
          ((player_play X (players m ! 0) (players m ! 1) (noise m)) ^^ nat (turns m - turn)) h)"
proof (induction X m turn h rule: play_loop.induct)
  case (1 X m turn h)
  show ?case
  proof (cases "turn < turns m")
    case True
    have g0: "getitem (players m) 0 = Inr (players m ! 0)"
      and g1: "getitem (players m) 1 = Inr (players m ! 1)"
      using "1.prems" by (auto simp: getitem_def)
    have n: "nat (turns m - turn) = Suc (nat (turns m - (turn + 1)))"
      using True by simp
    have "play_loop X m turn h =
            play_loop X m (turn + 1) (player_play X (players m ! 0) (players m ! 1) (noise m) h)"
      using True g0 g1 by (subst play_loop.simps) simp
    also have "\<dots> = Inr (max (turn + 1) (turns m),
        ((player_play X (players m ! 0) (players m ! 1) (noise m)) ^^ nat (turns m - (turn + 1)))
          (player_play X (players m ! 0) (players m ! 1) (noise m) h))"
      using "1.IH" [OF True g0 g1 "1.prems"] .
    finally show ?thesis
      using True by (simp add: n funpow_Suc_right max_def del: funpow.simps)
  next
    case False
    then show ?thesis
      by (subst play_loop.simps) (simp add: max_def)
  qed
qed

lemma play_loop_few_players:
  "length (players m) < 2 \<Longrightarrow>
   play_loop X m turn h = (if turn < turns m then Inl IndexError else Inr (turn, h))"
  by (subst play_loop.simps) (auto simp: getitem_def)

lemma truthy_stochastic:
  "truthy (stochastic X m) = (noise m \<noteq> 0 \<or> list_ex (classifier_stochastic X) (players m))"
  by (simp add: stochastic_def is_stochastic_def)

lemma play_loop_from_zero:
  "play_loop X m 0 h =
     (if length (players m) < 2 \<and> 0 < turns m then Inl IndexError
      else Inr (max 0 (turns m),
                ((player_play X (players m ! 0) (players m ! 1) (noise m)) ^^ nat (turns m)) h))"
proof (cases "2 \<le> length (players m)")
  case True
  then show ?thesis
    using play_loop_two_players [OF True, of X 0 h] by simp
next
  case False
  then show ?thesis
    using play_loop_few_players [of m X 0 h] by (simp add: max_def)
qed

lemma play_unfold:
  "play X m h =
     (if truthy (stochastic X m) \<or> \<not> cache_contains (cache m) (cache_key m) then
        (if length (players m) < 2 then Inl IndexError
         else
          (let h0 = fold (player_reset X) (players m) h;
               h' = ((player_play X (players m ! 0) (players m ! 1) (noise m)) ^^ nat (turns m)) h0;
               r = zip (history X h' (players m ! 0)) (history X h' (players m ! 1))
           in Inr (r,
                   m\<lparr>result := r,
                     cache := (if cache_update_required X m
                               then cache_setitem (cache m) (cache_key m) r else cache m)\<rparr>,
                   h')))
      else Inr (the (data (cache m) (cache_key m)),
                m\<lparr>result := the (data (cache m) (cache_key m))\<rparr>, h))"
proof (cases "2 \<le> length (players m)")
  case True
  then have g0: "getitem (players m) 0 = Inr (players m ! 0)"
    and g1: "getitem (players m) 1 = Inr (players m ! 1)"
    by (auto simp: getitem_def)
  show ?thesis
    unfolding play_def play_loop_two_players [OF True] g0 g1
    using True by (auto simp: cache_contains_def cache_getitem_def Let_def)
next
  case False
  then have g1: "getitem (players m) 1 = Inl IndexError"
    by (simp add: getitem_def)
  show ?thesis
    unfolding play_def play_loop_from_zero g1
    using False by (auto simp: cache_contains_def cache_getitem_def getitem_def split: sum.splits if_splits)
qed

lemma cache_update_required_iff:
  "cache_update_required X m =
     (noise m = 0 \<and> mutable (cache m) \<and> \<not> list_ex (classifier_stochastic X) (players m))"
  by (simp add: cache_update_required_def)

lemma play_cache_after:
  assumes "play X m h = Inr (r, m', h')"
  shows "cache m' = (if cache_update_required X m
                     then cache_setitem (cache m) (cache_key m) r else cache m)"
proof (cases "truthy (stochastic X m) \<or> \<not> cache_contains (cache m) (cache_key m)")
  case True
  then show ?thesis
    using assms by (auto simp: play_unfold [of X m h] Let_def split: if_splits)
next
  case False
  then obtain r0 where r0: "data (cache m) (cache_key m) = Some r0"
    by (auto simp: cache_contains_def)
  have "(data (cache m))(cache_key m \<mapsto> r0) = data (cache m)"
    using r0 by (simp add: map_upd_triv)
  then have "cache_setitem (cache m) (cache_key m) r0 = cache m"
    by (simp add: cache_setitem_def)
  then show ?thesis
    using assms False r0 by (auto simp: play_unfold [of X m h])
qed

lemma play_keeps:
  assumes "play X m h = Inr (r, m', h')"
  shows "result m' = r" "turns m' = turns m" "cache_key m' = cache_key m" "noise m' = noise m"
    "game m' = game m" "match_attributes m' = match_attributes m" "players m' = players m"
  using assms by (auto simp: play_unfold [of X m h] Let_def split: if_splits)

lemma Match_init_unfold:
  "Match_init X ps t g dc nz ma h =
     (if length ps < 2 then Inl IndexError
      else Inr (\<lparr>result = [], turns = t, cache_key = (ps ! 0, ps ! 1, t), noise = nz,
                 game = (case g of None \<Rightarrow> Game_default X | Some g' \<Rightarrow> g'),
                 cache = (case dc of None \<Rightarrow> DeterministicCache_new | Some c \<Rightarrow> c),
                 match_attributes =
                   (case ma of
                      None \<Rightarrow> [(''length'', AttrInt t),
                               (''game'', AttrGame (case g of None \<Rightarrow> Game_default X | Some g' \<Rightarrow> g')),
                               (''noise'', AttrFloat nz)]
                    | Some a \<Rightarrow> a),
                 players = ps\<rparr>,
                fold (\<lambda>p. set_match_attributes X p
                       (case ma of
                          None \<Rightarrow> [(''length'', AttrInt t),
                                   (''game'', AttrGame (case g of None \<Rightarrow> Game_default X | Some g' \<Rightarrow> g')),
                                   (''noise'', AttrFloat nz)]
                        | Some a \<Rightarrow> a)) ps h))"
proof (cases "2 \<le> length ps")
  case True
  then have "getitem ps 0 = Inr (ps ! 0)" "getitem ps 1 = Inr (ps ! 1)"
    by (auto simp: getitem_def)
  then show ?thesis
    using True by (simp add: Match_init_def players_setter_def Let_def)
next
  case False
  then have "getitem ps 1 = Inl IndexError"
    by (simp add: getitem_def)
  then show ?thesis
    using False by (simp add: Match_init_def getitem_def split: sum.splits)
qed

lemma Match_init_fields:
  assumes "Match_init X ps t g dc nz ma h = Inr (m, h')"
  shows "2 \<le> length ps" "result m = []" "turns m = t" "cache_key m = (ps ! 0, ps ! 1, t)"
    "noise m = nz" "players m = ps"
    "cache m = (case dc of None \<Rightarrow> DeterministicCache_new | Some c \<Rightarrow> c)"
  using assms by (auto simp: Match_init_unfold split: if_splits)

lemma Match_init_constructed:
  "Match_init X ps t g dc nz ma h = Inr (m, h') \<Longrightarrow> constructed m"
  by (simp add: constructed_def Match_init_fields)

lemma players_setter_constructed:
  "constructed m \<Longrightarrow> 2 \<le> length ps \<Longrightarrow> constructed (fst (players_setter X m ps h))"
  by (simp add: constructed_def players_setter_def)

section \<open>Histories under the collaborators' contracts\<close>

lemma fold_reset_history:
  "reset_clears_history X \<Longrightarrow>
   history X (fold (player_reset X) ps h) q = (if q \<in> set ps then [] else history X h q)"
proof (induction ps arbitrary: h)
  case Nil
  then show ?case by simp
next
  case (Cons p ps)
  have "history X (player_reset X p h) q = (if q = p then [] else history X h q)"
    using Cons.prems by (simp add: reset_clears_history_def)
  then show ?case
    using Cons.IH [OF Cons.prems, of "player_reset X p h"] by auto
qed

lemma play_returns:
  assumes "2 \<le> length (players m)"
  shows "\<exists>r m' h'. play X m h = Inr (r, m', h')"
proof (cases "truthy (stochastic X m) \<or> \<not> cache_contains (cache m) (cache_key m)")
  case True
  then show ?thesis
    using assms by (simp add: play_unfold [of X m h] Let_def)
next
  case False
  then show ?thesis
    by (simp add: play_unfold [of X m h])
qed

lemma funpow_play_length:
  assumes "play_appends_one X m"
  shows "length (history X (((player_play X (players m ! 0) (players m ! 1) (noise m)) ^^ n) h)
           (players m ! 0)) = n + length (history X h (players m ! 0)) \<and>
         length (history X (((player_play X (players m ! 0) (players m ! 1) (noise m)) ^^ n) h)
           (players m ! 1)) = n + length (history X h (players m ! 1))"
proof (induction n)
  case 0
  then show ?case by simp
next
  case (Suc n)
  then show ?case
    using assms by (simp add: play_appends_one_def)
qed

lemma simulated_record_length:
  assumes "0 \<le> turns m" "2 \<le> length (players m)" "reset_clears_history X" "play_appends_one X m"
  shows "int (length (zip
      (history X (((player_play X (players m ! 0) (players m ! 1) (noise m)) ^^ nat (turns m))
         (fold (player_reset X) (players m) h)) (players m ! 0))
      (history X (((player_play X (players m ! 0) (players m ! 1) (noise m)) ^^ nat (turns m))
         (fold (player_reset X) (players m) h)) (players m ! 1)))) = turns m"
proof -
  have "players m ! 0 \<in> set (players m)" "players m ! 1 \<in> set (players m)"
    using assms(2) by (auto intro: nth_mem)
  then have "history X (fold (player_reset X) (players m) h) (players m ! 0) = []"
    "history X (fold (player_reset X) (players m) h) (players m ! 1) = []"
    using assms(3) by (simp_all add: fold_reset_history)
  then show ?thesis
    using funpow_play_length [OF assms(4), of "nat (turns m)" "fold (player_reset X) (players m) h"]
      assms(1) by simp
qed

lemma cache_setitem_written_by_engine:
  assumes "cache_written_by_engine c" "int (length r) = snd (snd k)"
  shows "cache_written_by_engine (cache_setitem c k r)"
  using assms by (cases k) (auto simp: cache_written_by_engine_def cache_setitem_def)

section \<open>The concrete setting evaluated\<close>

lemma ex_constructs:
  "Match_init ex_ext [0, 1] t None None nz None ex_h0 = Inr (ex_match 0 1 t nz, ex_h1)"
  by (simp add: Match_init_unfold ex_match_def ex_ext_def ex_h0_def ex_h1_def)

lemma ex_reset_clears_history: "reset_clears_history ex_ext"
  by (simp add: reset_clears_history_def ex_ext_def)

lemma ex_play_appends_one: "p \<noteq> q \<Longrightarrow> play_appends_one ex_ext (ex_match p q t nz)"
  by (simp add: play_appends_one_def ex_ext_def ex_match_def ex_play_def)

lemma new_cache_written_by_engine: "cache_written_by_engine DeterministicCache_new"
  by (simp add: cache_written_by_engine_def DeterministicCache_new_def)

lemma ex_simulation:
  "((player_play ex_ext 0 1 nz) ^^ 2) (fold (player_reset ex_ext) [0, 1] ex_h1) = ex_h2"
  by (auto simp: ex_ext_def ex_play_def ex_move_def ex_h1_def ex_h2_def numeral_2_eq_2 fun_eq_iff)

lemma ex_plays:
  "play ex_ext (ex_match 0 1 2 0) ex_h1 = Inr ([(C, D), (C, D)], ex_played, ex_h2)"
proof -
  have s: "\<not> truthy (stochastic ex_ext (ex_match 0 1 2 0))"
    by (simp add: truthy_stochastic ex_match_def ex_ext_def)
  have n: "\<not> cache_contains DeterministicCache_new (0, 1, 2)"
    by (simp add: cache_contains_def DeterministicCache_new_def)
  have u: "cache_update_required ex_ext (ex_match 0 1 2 0)"
    by (simp add: cache_update_required_iff ex_match_def ex_ext_def DeterministicCache_new_def)
  have h: "history ex_ext ex_h2 0 = [C, C]" "history ex_ext ex_h2 1 = [D, D]"
    by (simp_all add: ex_ext_def ex_h2_def)
  show ?thesis
    unfolding play_unfold [of ex_ext "ex_match 0 1 2 0" ex_h1]
    using ex_simulation [of 0] s n u h
    by (simp add: ex_played_def ex_match_def Let_def)
qed

lemma ex_plays_stochastic:
  "play ex_ext (ex_match 0 2 2 0) ex_h1 =
     Inr ([(C, C), (C, C)], (ex_match 0 2 2 0)\<lparr>result := [(C, C), (C, C)]\<rparr>, ex_h3)"
proof -
  have s: "truthy (stochastic ex_ext (ex_match 0 2 2 0))"
    by (simp add: truthy_stochastic ex_match_def ex_ext_def)
  have u: "\<not> cache_update_required ex_ext (ex_match 0 2 2 0)"
    by (simp add: cache_update_required_iff ex_match_def ex_ext_def)
  have e: "((player_play ex_ext 0 2 0) ^^ 2) (fold (player_reset ex_ext) [0, 2] ex_h1) = ex_h3"
    by (auto simp: ex_ext_def ex_play_def ex_move_def ex_h1_def ex_h3_def numeral_2_eq_2 fun_eq_iff)
  have h: "history ex_ext ex_h3 0 = [C, C]" "history ex_ext ex_h3 2 = [C, C]"
    by (simp_all add: ex_ext_def ex_h3_def)
  show ?thesis
    unfolding play_unfold [of ex_ext "ex_match 0 2 2 0" ex_h1]
    using e s u h by (simp add: ex_match_def Let_def)
qed

lemma ex_plays_swapped:
  "play ex_ext ((ex_match 0 1 2 0)\<lparr>players := [1, 0]\<rparr>) ex_h1 =
     Inr ([(D, C), (D, C)],
          (ex_match 0 1 2 0)\<lparr>players := [1, 0], result := [(D, C), (D, C)],
             cache := cache_setitem DeterministicCache_new (0, 1, 2) [(D, C), (D, C)]\<rparr>,
          ex_h2)"
proof -
  have s: "\<not> truthy (stochastic ex_ext ((ex_match 0 1 2 0)\<lparr>players := [1, 0]\<rparr>))"
    by (simp add: truthy_stochastic ex_match_def ex_ext_def)
  have n: "\<not> cache_contains DeterministicCache_new (0, 1, 2)"
    by (simp add: cache_contains_def DeterministicCache_new_def)
  have u: "cache_update_required ex_ext ((ex_match 0 1 2 0)\<lparr>players := [1, 0]\<rparr>)"
    by (simp add: cache_update_required_iff ex_match_def ex_ext_def DeterministicCache_new_def)
  have e: "((player_play ex_ext 1 0 0) ^^ 2) (fold (player_reset ex_ext) [1, 0] ex_h1) = ex_h2"
    by (auto simp: ex_ext_def ex_play_def ex_move_def ex_h1_def ex_h2_def numeral_2_eq_2 fun_eq_iff)
  have h: "history ex_ext ex_h2 0 = [C, C]" "history ex_ext ex_h2 1 = [D, D]"
    by (simp_all add: ex_ext_def ex_h2_def)
  show ?thesis
    unfolding play_unfold [of ex_ext "(ex_match 0 1 2 0)\<lparr>players := [1, 0]\<rparr>" ex_h1]
    using e s n u h by (simp add: ex_match_def Let_def)
qed

lemma ex_plays_negative_turns:
  "play ex_ext (ex_match 0 1 (- 1) 0) ex_h1 =
     Inr ([], (ex_match 0 1 (- 1) 0)\<lparr>cache := cache_setitem DeterministicCache_new (0, 1, - 1) []\<rparr>,
          ex_h1)"
proof -
  have s: "\<not> truthy (stochastic ex_ext (ex_match 0 1 (- 1) 0))"
    by (simp add: truthy_stochastic ex_match_def ex_ext_def)
  have n: "\<not> cache_contains DeterministicCache_new (0, 1, - 1)"
    by (simp add: cache_contains_def DeterministicCache_new_def)
  have u: "cache_update_required ex_ext (ex_match 0 1 (- 1) 0)"
    by (simp add: cache_update_required_iff ex_match_def ex_ext_def DeterministicCache_new_def)
  have e: "fold (player_reset ex_ext) [0, 1] ex_h1 = ex_h1"
    by (auto simp: ex_ext_def ex_h1_def fun_eq_iff)
  have h: "history ex_ext ex_h1 0 = []" "history ex_ext ex_h1 1 = []"
    by (simp_all add: ex_ext_def ex_h1_def)
  show ?thesis
    unfolding play_unfold [of ex_ext "ex_match 0 1 (- 1) 0" ex_h1]
    using e s n u h by (simp add: ex_match_def Let_def)
qed

lemma ex_constructs_with_cache:
  "Match_init ex_ext [0, 1] t None (Some c) nz None ex_h0 = Inr ((ex_match 0 1 t nz)\<lparr>cache := c\<rparr>, ex_h1)"
  by (simp add: Match_init_unfold ex_match_def ex_ext_def ex_h0_def ex_h1_def)

lemma ex_replays_swapped:
  "play ex_ext (ex_played\<lparr>players := [1, 0]\<rparr>) h =
     Inr ([(C, D), (C, D)], ex_played\<lparr>players := [1, 0]\<rparr>, h)"
proof -
  have s: "\<not> truthy (stochastic ex_ext (ex_played\<lparr>players := [1, 0]\<rparr>))"
    by (simp add: truthy_stochastic ex_played_def ex_match_def ex_ext_def)
  have d: "data (cache (ex_played\<lparr>players := [1, 0]\<rparr>)) (cache_key (ex_played\<lparr>players := [1, 0]\<rparr>)) =
      Some [(C, D), (C, D)]"
    by (simp add: ex_played_def ex_match_def cache_setitem_def)
  have "ex_played\<lparr>players := [1, 0], result := [(C, D), (C, D)]\<rparr> = ex_played\<lparr>players := [1, 0]\<rparr>"
    by (simp add: ex_played_def)
  then show ?thesis
    unfolding play_unfold [of ex_ext "ex_played\<lparr>players := [1, 0]\<rparr>" h]
    using s d by (simp add: cache_contains_def)
qed

lemma ex_plays_one_player:
  "play ex_ext ((ex_match 0 1 2 0)\<lparr>players := [0]\<rparr>) h = Inl IndexError"
proof -
  have "\<not> cache_contains (cache ((ex_match 0 1 2 0)\<lparr>players := [0]\<rparr>))
           (cache_key ((ex_match 0 1 2 0)\<lparr>players := [0]\<rparr>))"
    by (simp add: cache_contains_def ex_match_def DeterministicCache_new_def)
  then show ?thesis
    unfolding play_unfold [of ex_ext "(ex_match 0 1 2 0)\<lparr>players := [0]\<rparr>" h]
    by (simp add: ex_match_def)
qed

lemma ex_plays_foreign_entry:
  "play ex_ext ((ex_match 0 1 0 0)\<lparr>cache := ex_cache_foreign\<rparr>) h =
     Inr ([(D, D)], (ex_match 0 1 0 0)\<lparr>cache := ex_cache_foreign, result := [(D, D)]\<rparr>, h)"
proof -
  have s: "\<not> truthy (stochastic ex_ext ((ex_match 0 1 0 0)\<lparr>cache := ex_cache_foreign\<rparr>))"
    by (simp add: truthy_stochastic ex_match_def ex_ext_def)
  have d: "data (cache ((ex_match 0 1 0 0)\<lparr>cache := ex_cache_foreign\<rparr>))
             (cache_key ((ex_match 0 1 0 0)\<lparr>cache := ex_cache_foreign\<rparr>)) = Some [(D, D)]"
    by (simp add: ex_match_def ex_cache_foreign_def cache_setitem_def)
  show ?thesis
    unfolding play_unfold [of ex_ext "(ex_match 0 1 0 0)\<lparr>cache := ex_cache_foreign\<rparr>" h]
    using s d by (simp add: cache_contains_def)
qed

section \<open>The claims\<close>

subsection \<open>C1: fresh simulation or cached record\<close>

text \<open>
  C1, amended. \<^verbatim>\<open>play()\<close> simulates afresh exactly when the noise is nonzero, or a listed
  player is classified stochastic, or the cache key is not in the cache. On that path,
  for a match that lists at least two players, every listed player is reset first, in
  order; then the loop calls \<^verbatim>\<open>players[0].play(players[1], noise)\<close> \<open>max 0 turns\<close> times
  (\<^verbatim>\<open>turns\<close> times when \<^verbatim>\<open>turns\<close> is at least 0, not at all when it is negative), its
  counter ending at that number; the record is the zip of the two histories; and the
  record is stored in the cache under the key when the noise is 0, the cache mutable and
  no listed player stochastic. On the other path the record is the cache's entry under
  the key, and the players' state is the one \<^verbatim>\<open>play()\<close> was given: no player is reset or
  called. With fewer than two players listed the fresh path raises IndexError.
\<close>

theorem play_fresh_or_cached:
  "play X m h =
     (if noise m \<noteq> 0 \<or> list_ex (classifier_stochastic X) (players m) \<or>
         data (cache m) (cache_key m) = None then
        (if length (players m) < 2 then Inl IndexError
         else
          (let h0 = fold (player_reset X) (players m) h;
               h' = ((player_play X (players m ! 0) (players m ! 1) (noise m)) ^^ nat (turns m)) h0;
               r = zip (history X h' (players m ! 0)) (history X h' (players m ! 1))
           in Inr (r,
                   m\<lparr>result := r,
                     cache := (if noise m = 0 \<and> mutable (cache m) \<and>
                                  \<not> list_ex (classifier_stochastic X) (players m)
                               then (cache m)\<lparr>data := (data (cache m))(cache_key m \<mapsto> r)\<rparr>
                               else cache m)\<rparr>,
                   h')))
      else Inr (the (data (cache m) (cache_key m)),
                m\<lparr>result := the (data (cache m) (cache_key m))\<rparr>, h)) \<and>
   play_loop X m 0 (fold (player_reset X) (players m) h) =
     (if length (players m) < 2 \<and> 0 < turns m then Inl IndexError
      else Inr (max 0 (turns m),
                ((player_play X (players m ! 0) (players m ! 1) (noise m)) ^^ nat (turns m))
                  (fold (player_reset X) (players m) h))) \<and>
   int (nat (turns m)) = max 0 (turns m)"
  by (simp add: play_unfold [of X m h] play_loop_from_zero [of X m] truthy_stochastic
      cache_contains_def cache_update_required_iff cache_setitem_def Let_def)

text \<open>
  Players 0 and 1 for two turns on an empty cache, then the same match again, served from
  the cache; player 0 against the stochastic player 2, and players 0 and 1 with noise
  1/10, each with an entry under the key in the cache, simulated all the same.
\<close>

theorem play_fresh_or_cached_witness:
  "play ex_ext (ex_match 0 1 2 0) ex_h1 = Inr ([(C, D), (C, D)], ex_played, ex_h2) \<and>
   play ex_ext ex_played ex_h2 = Inr ([(C, D), (C, D)], ex_played, ex_h2) \<and>
   data ex_cache (cache_key (ex_match 0 2 2 0)) = Some [(D, D), (D, D)] \<and>
   play ex_ext ((ex_match 0 2 2 0)\<lparr>cache := ex_cache\<rparr>) ex_h1 =
     Inr ([(C, C), (C, C)], (ex_match 0 2 2 0)\<lparr>cache := ex_cache, result := [(C, C), (C, C)]\<rparr>, ex_h3) \<and>
   data ex_cache01 (cache_key (ex_match 0 1 2 (1 / 10))) = Some [(D, D), (D, D)] \<and>
   play ex_ext ((ex_match 0 1 2 (1 / 10))\<lparr>cache := ex_cache01\<rparr>) ex_h1 =
     Inr ([(C, D), (C, D)], (ex_match 0 1 2 (1 / 10))\<lparr>cache := ex_cache01, result := [(C, D), (C, D)]\<rparr>,
          ex_h2)"
proof -
  note fresh = play_fresh_or_cached [of ex_ext "ex_match 0 1 2 0" ex_h1, THEN conjunct1]
  note cached = play_fresh_or_cached [of ex_ext ex_played ex_h2, THEN conjunct1]
  note classified = play_fresh_or_cached [of ex_ext "(ex_match 0 2 2 0)\<lparr>cache := ex_cache\<rparr>" ex_h1,
      THEN conjunct1]
  note noisy = play_fresh_or_cached [of ex_ext "(ex_match 0 1 2 (1 / 10))\<lparr>cache := ex_cache01\<rparr>" ex_h1,
      THEN conjunct1]
  have h: "history ex_ext ex_h2 0 = [C, C]" "history ex_ext ex_h2 1 = [D, D]"
    "history ex_ext ex_h3 0 = [C, C]" "history ex_ext ex_h3 2 = [C, C]"
    by (simp_all add: ex_ext_def ex_h2_def ex_h3_def)
  have e3: "((player_play ex_ext 0 2 0) ^^ 2) (fold (player_reset ex_ext) [0, 2] ex_h1) = ex_h3"
    by (auto simp: ex_ext_def ex_play_def ex_move_def ex_h1_def ex_h3_def numeral_2_eq_2 fun_eq_iff)
  have a: "play ex_ext (ex_match 0 1 2 0) ex_h1 = Inr ([(C, D), (C, D)], ex_played, ex_h2)"
    unfolding fresh using ex_simulation [of 0] h
    by (simp add: ex_played_def ex_match_def ex_ext_def DeterministicCache_new_def
        cache_setitem_def Let_def)
  have b: "play ex_ext ex_played ex_h2 = Inr ([(C, D), (C, D)], ex_played, ex_h2)"
    unfolding cached
    by (simp add: ex_played_def ex_match_def ex_ext_def cache_setitem_def)
  have c0: "data ex_cache (cache_key (ex_match 0 2 2 0)) = Some [(D, D), (D, D)]"
    by (simp add: ex_cache_def ex_match_def cache_setitem_def)
  have c: "play ex_ext ((ex_match 0 2 2 0)\<lparr>cache := ex_cache\<rparr>) ex_h1 =
     Inr ([(C, C), (C, C)], (ex_match 0 2 2 0)\<lparr>cache := ex_cache, result := [(C, C), (C, C)]\<rparr>, ex_h3)"
    unfolding classified using e3 h
    by (simp add: ex_match_def ex_ext_def Let_def)
  have d0: "data ex_cache01 (cache_key (ex_match 0 1 2 (1 / 10))) = Some [(D, D), (D, D)]"
    by (simp add: ex_cache01_def ex_match_def cache_setitem_def)
  have d: "play ex_ext ((ex_match 0 1 2 (1 / 10))\<lparr>cache := ex_cache01\<rparr>) ex_h1 =
     Inr ([(C, D), (C, D)], (ex_match 0 1 2 (1 / 10))\<lparr>cache := ex_cache01, result := [(C, D), (C, D)]\<rparr>,
          ex_h2)"
    unfolding noisy using ex_simulation [of "1 / 10"] h
    by (simp add: ex_match_def ex_ext_def Let_def)
  show ?thesis
    using a b c0 c d0 d by simp
qed

text \<open>
  C1 as stated fails for a negative \<^verbatim>\<open>turns\<close>, which the constructor accepts: with
  \<^verbatim>\<open>turns = -1\<close> the loop makes no iteration, its counter ending at 0 and not at -1. It
  fails also for a match whose players were set to a list of one: \<^verbatim>\<open>play()\<close> raises
  IndexError.
\<close>

theorem play_exactly_turns_iterations_counterexample:
  "Match_init ex_ext [0, 1] (- 1) None None 0 None ex_h0 = Inr (ex_match 0 1 (- 1) 0, ex_h1) \<and>
   play_loop ex_ext (ex_match 0 1 (- 1) 0) 0
     (fold (player_reset ex_ext) (players (ex_match 0 1 (- 1) 0)) ex_h1) = Inr (0, ex_h1) \<and>
   (0 :: int) \<noteq> turns (ex_match 0 1 (- 1) 0) \<and>
   play ex_ext (ex_match 0 1 (- 1) 0) ex_h1 =
     Inr ([], (ex_match 0 1 (- 1) 0)\<lparr>cache := cache_setitem DeterministicCache_new (0, 1, - 1) []\<rparr>,
          ex_h1) \<and>
   players (fst (players_setter ex_ext (ex_match 0 1 2 0) [0] ex_h1)) = [0] \<and>
   play ex_ext (fst (players_setter ex_ext (ex_match 0 1 2 0) [0] ex_h1)) ex_h1 = Inl IndexError"
proof -
  have e: "fold (player_reset ex_ext) (players (ex_match 0 1 (- 1) 0)) ex_h1 = ex_h1"
    by (auto simp: ex_match_def ex_ext_def ex_h1_def fun_eq_iff)
  have l: "play_loop ex_ext (ex_match 0 1 (- 1) 0) 0 ex_h1 = Inr (0, ex_h1)"
    by (simp add: play_loop_from_zero ex_match_def)
  have s: "fst (players_setter ex_ext (ex_match 0 1 2 0) [0] ex_h1) = (ex_match 0 1 2 0)\<lparr>players := [0]\<rparr>"
    by (simp add: players_setter_def)
  have t: "(0 :: int) \<noteq> turns (ex_match 0 1 (- 1) 0)"
    by (simp add: ex_match_def)
  show ?thesis
    unfolding e s
    using ex_constructs [of "- 1" 0] l t ex_plays_negative_turns ex_plays_one_player [of ex_h1]
    by simp
qed

subsection \<open>C2: a stochastic match and the cache\<close>

text \<open>
  C2. When the noise is nonzero or one of the players is classified stochastic,
  \<^verbatim>\<open>play()\<close> neither reads a record from the cache nor writes one: whatever cache \<open>c\<close> the
  match holds, the outcome is the one computed with any other cache, with \<open>c\<close> itself left
  in the match afterwards. The noise and the players are unchanged by the call, so the
  same holds of every later call.
\<close>

theorem stochastic_match_bypasses_cache:
  assumes "noise m \<noteq> 0 \<or> list_ex (classifier_stochastic X) (players m)"
  shows "play X (m\<lparr>cache := c\<rparr>) h =
           map_sum id (\<lambda>(r, m', h'). (r, m'\<lparr>cache := c\<rparr>, h')) (play X m h) \<and>
         (play X m h = Inr (r, m', h') \<longrightarrow>
            cache m' = cache m \<and> noise m' = noise m \<and> players m' = players m)"
proof -
  have s: "truthy (stochastic X m)" "truthy (stochastic X (m\<lparr>cache := c\<rparr>))"
    using assms by (simp_all add: truthy_stochastic)
  have n: "\<not> cache_update_required X m" "\<not> cache_update_required X (m\<lparr>cache := c\<rparr>)"
    using assms by (auto simp: cache_update_required_iff)
  show ?thesis
    using s n by (auto simp: play_unfold [of X m h] play_unfold [of X "m\<lparr>cache := c\<rparr>" h] Let_def)
qed

text \<open>
  Player 0 against the stochastic player 2, with a cache that holds an entry under the
  match's key: the entry is not returned and the cache is as before.
\<close>

theorem stochastic_match_bypasses_cache_witness:
  "list_ex (classifier_stochastic ex_ext) (players (ex_match 0 2 2 0)) \<and>
   cache_contains ex_cache (cache_key (ex_match 0 2 2 0)) \<and>
   play ex_ext ((ex_match 0 2 2 0)\<lparr>cache := ex_cache\<rparr>) ex_h1 =
     Inr ([(C, C), (C, C)], (ex_match 0 2 2 0)\<lparr>result := [(C, C), (C, C)], cache := ex_cache\<rparr>, ex_h3)"
proof -
  have s: "list_ex (classifier_stochastic ex_ext) (players (ex_match 0 2 2 0))"
    by (simp add: ex_match_def ex_ext_def)
  then have a: "noise (ex_match 0 2 2 0) \<noteq> 0 \<or>
      list_ex (classifier_stochastic ex_ext) (players (ex_match 0 2 2 0))"
    by simp
  have k: "cache_contains ex_cache (cache_key (ex_match 0 2 2 0))"
    by (simp add: cache_contains_def ex_cache_def cache_setitem_def ex_match_def)
  show ?thesis
    using stochastic_match_bypasses_cache [OF a, of ex_cache ex_h1] s k
    by (simp add: ex_plays_stochastic)
qed

subsection \<open>C3: when the cache is updated\<close>

text \<open>
  C3. An update of the cache is required exactly when the noise is 0, the cache is mutable
  and no player is classified stochastic. After \<^verbatim>\<open>play()\<close> the cache is the old one with
  the record stored under the key when an update is required (on a cache hit that entry
  is the record already), and the old one unchanged when any of the three conditions
  fails.
\<close>

theorem cache_written_iff_eligible:
  "cache_update_required X m =
     (noise m = 0 \<and> mutable (cache m) \<and> \<not> list_ex (classifier_stochastic X) (players m)) \<and>
   (play X m h = Inr (r, m', h') \<longrightarrow>
      cache m' = (if cache_update_required X m
                  then cache_setitem (cache m) (cache_key m) r else cache m) \<and>
      (cache_update_required X m \<longrightarrow> data (cache m') (cache_key m) = Some r) \<and>
      (noise m \<noteq> 0 \<or> \<not> mutable (cache m) \<or> list_ex (classifier_stochastic X) (players m)
         \<longrightarrow> cache m' = cache m))"
  using play_cache_after [of X m h r m' h']
  by (auto simp: cache_update_required_iff cache_setitem_def)

theorem cache_written_iff_eligible_witness:
  "play ex_ext (ex_match 0 1 2 0) ex_h1 = Inr ([(C, D), (C, D)], ex_played, ex_h2) \<and>
   cache_update_required ex_ext (ex_match 0 1 2 0) \<and>
   data (cache ex_played) (cache_key (ex_match 0 1 2 0)) = Some [(C, D), (C, D)] \<and>
   play ex_ext (ex_match 0 2 2 0) ex_h1 =
     Inr ([(C, C), (C, C)], (ex_match 0 2 2 0)\<lparr>result := [(C, C), (C, C)]\<rparr>, ex_h3) \<and>
   cache ((ex_match 0 2 2 0)\<lparr>result := [(C, C), (C, C)]\<rparr>) = cache (ex_match 0 2 2 0)"
proof -
  have u: "cache_update_required ex_ext (ex_match 0 1 2 0)"
    by (simp add: cache_update_required_def ex_match_def ex_ext_def DeterministicCache_new_def)
  show ?thesis
    using cache_written_iff_eligible [of ex_ext "ex_match 0 1 2 0" ex_h1 "[(C, D), (C, D)]" ex_played ex_h2]
      cache_written_iff_eligible [of ex_ext "ex_match 0 2 2 0" ex_h1 "[(C, C), (C, C)]"
        "(ex_match 0 2 2 0)\<lparr>result := [(C, C), (C, C)]\<rparr>" ex_h3]
      u ex_plays ex_plays_stochastic
    by (simp add: cache_setitem_def)
qed

subsection \<open>C4: the stochastic classification\<close>

text \<open>
  C4, amended. A match is classified stochastic exactly when its noise is nonzero (not:
  positive) or one of its players is classified stochastic. The classification is
  computed from the current noise and players at each use: after the players are
  reassigned it follows the new players.
\<close>

theorem stochastic_iff_noise_nonzero_or_classified:
  "truthy (is_stochastic X ps nz) = (nz \<noteq> 0 \<or> list_ex (classifier_stochastic X) ps) \<and>
   stochastic X m = is_stochastic X (players m) (noise m) \<and>
   truthy (stochastic X m) = (noise m \<noteq> 0 \<or> list_ex (classifier_stochastic X) (players m)) \<and>
   truthy (stochastic X (fst (players_setter X m ps h))) =
     (noise m \<noteq> 0 \<or> list_ex (classifier_stochastic X) ps)"
  by (simp add: stochastic_def is_stochastic_def players_setter_def)

theorem stochastic_iff_noise_nonzero_or_classified_witness:
  "truthy (stochastic ex_ext (ex_match 0 1 2 (1 / 10))) \<and>
   truthy (stochastic ex_ext (ex_match 0 2 2 0)) \<and>
   \<not> truthy (stochastic ex_ext (ex_match 0 1 2 0)) \<and>
   truthy (stochastic ex_ext (fst (players_setter ex_ext (ex_match 0 1 2 0) [0, 2] ex_h1)))"
  using stochastic_iff_noise_nonzero_or_classified [of ex_ext "[0, 2]" 0 "ex_match 0 1 2 (1 / 10)" ex_h1]
    stochastic_iff_noise_nonzero_or_classified [of ex_ext "[0, 2]" 0 "ex_match 0 2 2 0" ex_h1]
    stochastic_iff_noise_nonzero_or_classified [of ex_ext "[0, 2]" 0 "ex_match 0 1 2 0" ex_h1]
  by (simp add: ex_match_def ex_ext_def players_setter_def is_stochastic_def)

text \<open>
  C4 as stated fails for a negative noise, which the constructor accepts: the match of
  the deterministic players 0 and 1 with noise -1/2 is classified stochastic.
\<close>

theorem stochastic_iff_positive_noise_counterexample:
  "Match_init ex_ext [0, 1] 2 None None (- 1 / 2) None ex_h0 = Inr (ex_match 0 1 2 (- 1 / 2), ex_h1) \<and>
   truthy (stochastic ex_ext (ex_match 0 1 2 (- 1 / 2))) \<and>
   \<not> (0 < noise (ex_match 0 1 2 (- 1 / 2)) \<or>
      list_ex (classifier_stochastic ex_ext) (players (ex_match 0 1 2 (- 1 / 2))))"
  using ex_constructs [of 2 "- 1 / 2"]
  by (simp add: stochastic_def is_stochastic_def ex_match_def ex_ext_def)

subsection \<open>C5: what the constructor rejects\<close>

text \<open>
  C5, amended. The constructor checks neither \<^verbatim>\<open>turns\<close> nor \<^verbatim>\<open>noise\<close>, so a negative
  \<^verbatim>\<open>turns\<close> or a \<^verbatim>\<open>noise\<close> outside [0, 1] is not rejected on that account. Given fewer than
  two players it raises IndexError whatever the two values are; a match it returns holds
  them as given, in the cache key too, with an empty record; given explicit match
  attributes its outcome is that of the same construction with \<^verbatim>\<open>turns = 0\<close> and
  \<^verbatim>\<open>noise = 0\<close>, but for the fields that hold the two values; and given none it is the
  construction with the default attributes made explicit.
\<close>

theorem constructor_checks_neither_turns_nor_noise:
  "(length ps < 2 \<longrightarrow> Match_init X ps t g dc nz ma h = Inl IndexError) \<and>
   (Match_init X ps t g dc nz ma h = Inr (m, h') \<longrightarrow>
      turns m = t \<and> noise m = nz \<and> result m = [] \<and> cache_key m = (ps ! 0, ps ! 1, t)) \<and>
   Match_init X ps t g dc nz (Some a) h =
     map_sum id
       (\<lambda>(m0, h0). (m0\<lparr>turns := t, cache_key := (ps ! 0, ps ! 1, t), noise := nz\<rparr>, h0))
       (Match_init X ps 0 g dc 0 (Some a) h) \<and>
   Match_init X ps t g dc nz None h =
     Match_init X ps t g dc nz
       (Some [(''length'', AttrInt t),
              (''game'', AttrGame (case g of None \<Rightarrow> Game_default X | Some g' \<Rightarrow> g')),
              (''noise'', AttrFloat nz)]) h"
  by (auto simp: Match_init_unfold)

theorem constructor_checks_neither_turns_nor_noise_witness:
  "Match_init ex_ext [0] (- 1) None None 2 None ex_h0 = Inl IndexError \<and>
   Match_init ex_ext [0, 1] (- 1) None None 2 None ex_h0 = Inr (ex_match 0 1 (- 1) 2, ex_h1) \<and>
   turns (ex_match 0 1 (- 1) 2) = - 1 \<and> noise (ex_match 0 1 (- 1) 2) = 2 \<and>
   result (ex_match 0 1 (- 1) 2) = [] \<and> cache_key (ex_match 0 1 (- 1) 2) = (0, 1, - 1) \<and>
   Match_init ex_ext [0, 1] (- 1) None None 2 (Some []) ex_h0 =
     map_sum id
       (\<lambda>(m0, h0). (m0\<lparr>turns := - 1, cache_key := (0, 1, - 1), noise := 2\<rparr>, h0))
       (Match_init ex_ext [0, 1] 0 None None 0 (Some []) ex_h0)"
proof -
  note t1 = constructor_checks_neither_turns_nor_noise
    [of "[0]" ex_ext "- 1" None None 2 None ex_h0 "ex_match 0 1 (- 1) 2" ex_h1 "[]"]
  note t2 = constructor_checks_neither_turns_nor_noise
    [of "[0, 1]" ex_ext "- 1" None None 2 None ex_h0 "ex_match 0 1 (- 1) 2" ex_h1 "[]"]
  have a: "Match_init ex_ext [0] (- 1) None None 2 None ex_h0 = Inl IndexError"
    using t1 by simp
  have b: "turns (ex_match 0 1 (- 1) 2) = - 1 \<and> noise (ex_match 0 1 (- 1) 2) = 2 \<and>
      result (ex_match 0 1 (- 1) 2) = [] \<and> cache_key (ex_match 0 1 (- 1) 2) = (0, 1, - 1)"
    using t2 ex_constructs [of "- 1" 2] by simp
  have c: "Match_init ex_ext [0, 1] (- 1) None None 2 (Some []) ex_h0 =
     map_sum id
       (\<lambda>(m0, h0). (m0\<lparr>turns := - 1, cache_key := (0, 1, - 1), noise := 2\<rparr>, h0))
       (Match_init ex_ext [0, 1] 0 None None 0 (Some []) ex_h0)"
    using t2 by simp
  show ?thesis
    using a b c ex_constructs [of "- 1" 2] by simp
qed

text \<open>
  C5 as stated fails: the constructor returns a match for \<^verbatim>\<open>turns = -1\<close>, for
  \<^verbatim>\<open>noise = 2\<close> and for \<^verbatim>\<open>noise = -1/2\<close>.
\<close>

theorem constructor_rejects_counterexample:
  "Match_init ex_ext [0, 1] (- 1) None None 0 None ex_h0 = Inr (ex_match 0 1 (- 1) 0, ex_h1) \<and>
   turns (ex_match 0 1 (- 1) 0) < 0 \<and>
   Match_init ex_ext [0, 1] 2 None None 2 None ex_h0 = Inr (ex_match 0 1 2 2, ex_h1) \<and>
   1 < noise (ex_match 0 1 2 2) \<and>
   Match_init ex_ext [0, 1] 2 None None (- 1 / 2) None ex_h0 = Inr (ex_match 0 1 2 (- 1 / 2), ex_h1) \<and>
   noise (ex_match 0 1 2 (- 1 / 2)) < 0"
  using ex_constructs [of "- 1" 0] ex_constructs [of 2 2] ex_constructs [of 2 "- 1 / 2"]
  by (simp add: ex_match_def)

subsection \<open>C6: the length of the record\<close>

text \<open>
  C6, amended. For a match as the constructor builds it with \<^verbatim>\<open>turns\<close> at least 0, with
  players whose \<^verbatim>\<open>reset\<close> clears the history and whose \<^verbatim>\<open>play\<close> appends one action to
  each player's history, and with a cache whose entries were written by the engine:
  \<^verbatim>\<open>play()\<close> returns, the record it returns and stores has exactly \<^verbatim>\<open>turns\<close> entries, and
  \<^verbatim>\<open>__len__\<close> is \<^verbatim>\<open>turns\<close> before and after. The assumptions hold again of the match
  after the call, so this is so after any number of calls.
\<close>

theorem record_length_is_turns:
  assumes "0 \<le> turns m" "constructed m" "reset_clears_history X" "play_appends_one X m"
    "cache_written_by_engine (cache m)"
  shows "\<exists>r m' h'. play X m h = Inr (r, m', h') \<and> int (length r) = turns m \<and> result m' = r \<and>
           Match_len m = turns m \<and> Match_len m' = turns m \<and>
           constructed m' \<and> play_appends_one X m' \<and> cache_written_by_engine (cache m')"
proof -
  have two: "2 \<le> length (players m)" and key: "snd (snd (cache_key m)) = turns m"
    using assms(2) by (simp_all add: constructed_def)
  obtain r m' h' where p: "play X m h = Inr (r, m', h')"
    using play_returns [OF two, of X h] by blast
  have len: "int (length r) = turns m"
  proof (cases "truthy (stochastic X m) \<or> \<not> cache_contains (cache m) (cache_key m)")
    case True
    then show ?thesis
      using p two simulated_record_length [OF assms(1) two assms(3,4), of h]
      by (auto simp: play_unfold [of X m h] Let_def)
  next
    case False
    then obtain r0 where r0: "data (cache m) (cache_key m) = Some r0"
      by (auto simp: cache_contains_def)
    then have "int (length r0) = snd (snd (cache_key m))"
      using assms(5) by (cases "cache_key m") (auto simp: cache_written_by_engine_def)
    then show ?thesis
      using p False r0 key by (auto simp: play_unfold [of X m h])
  qed
  have k: "result m' = r" "turns m' = turns m" "cache_key m' = cache_key m"
    "noise m' = noise m" "players m' = players m"
    using play_keeps [OF p] by simp_all
  have c: "cache_written_by_engine (cache m')"
    using play_cache_after [OF p] assms(5) cache_setitem_written_by_engine [of "cache m" r "cache_key m"]
      len key by simp
  have "constructed m'" "play_appends_one X m'"
    using assms(2,4) k by (simp_all add: constructed_def play_appends_one_def)
  then show ?thesis
    using p len k c by (simp add: Match_len_def)
qed

theorem record_length_is_turns_witness:
  "0 \<le> turns (ex_match 0 1 2 0) \<and> constructed (ex_match 0 1 2 0) \<and>
   reset_clears_history ex_ext \<and> play_appends_one ex_ext (ex_match 0 1 2 0) \<and>
   cache_written_by_engine (cache (ex_match 0 1 2 0)) \<and>
   (\<exists>r m' h'. play ex_ext (ex_match 0 1 2 0) ex_h1 = Inr (r, m', h') \<and> int (length r) = 2 \<and>
      result m' = r \<and> Match_len (ex_match 0 1 2 0) = 2 \<and> Match_len m' = 2)"
proof -
  have a: "0 \<le> turns (ex_match 0 1 2 0)" and t: "turns (ex_match 0 1 2 0) = 2"
    by (simp_all add: ex_match_def)
  have b: "constructed (ex_match 0 1 2 0)"
    using ex_constructs [of 2 0] by (rule Match_init_constructed)
  have c: "play_appends_one ex_ext (ex_match 0 1 2 0)"
    by (simp add: ex_play_appends_one)
  have d: "cache_written_by_engine (cache (ex_match 0 1 2 0))"
    by (simp add: ex_match_def new_cache_written_by_engine)
  show ?thesis
    using record_length_is_turns [OF a b ex_reset_clears_history c d, of ex_h1]
      a b c d ex_reset_clears_history
    unfolding t by blast
qed

text \<open>
  C6 as stated fails for a negative \<^verbatim>\<open>turns\<close>, which the constructor accepts: with
  \<^verbatim>\<open>turns = -1\<close> the loop does not run and the record is empty, of length 0 and not -1.
\<close>

theorem record_length_is_turns_counterexample:
  "Match_init ex_ext [0, 1] (- 1) None None 0 None ex_h0 = Inr (ex_match 0 1 (- 1) 0, ex_h1) \<and>
   reset_clears_history ex_ext \<and> play_appends_one ex_ext (ex_match 0 1 (- 1) 0) \<and>
   cache_written_by_engine (cache (ex_match 0 1 (- 1) 0)) \<and>
   play ex_ext (ex_match 0 1 (- 1) 0) ex_h1 =
     Inr ([], (ex_match 0 1 (- 1) 0)\<lparr>cache := cache_setitem DeterministicCache_new (0, 1, - 1) []\<rparr>,
          ex_h1) \<and>
   result ((ex_match 0 1 (- 1) 0)\<lparr>cache := cache_setitem DeterministicCache_new (0, 1, - 1) []\<rparr>) = [] \<and>
   int (length ([] :: interactions)) \<noteq> turns (ex_match 0 1 (- 1) 0)"
proof -
  have c: "play_appends_one ex_ext (ex_match 0 1 (- 1) 0)"
    by (simp add: ex_play_appends_one)
  have d: "cache_written_by_engine (cache (ex_match 0 1 (- 1) 0))"
    by (simp add: ex_match_def new_cache_written_by_engine)
  show ?thesis
    using ex_constructs [of "- 1" 0] ex_reset_clears_history c d ex_plays_negative_turns
    by (simp add: ex_match_def)
qed

subsection \<open>C7: the winner and its two sentinels\<close>



subsection \<open>C8: a match of no turns\<close>

text \<open>
  C8, amended. For a match constructed with \<^verbatim>\<open>turns = 0\<close>, assuming that \<^verbatim>\<open>Player.reset\<close>
  clears the history and that the entries of the cache were written by the engine, the key is
  \<^verbatim>\<open>(players[0], players[1], 0)\<close> and \<^verbatim>\<open>play()\<close> returns the empty record. When an update of
  the cache is required the empty record is stored under that key, and every later
  \<^verbatim>\<open>play()\<close> of the match returns it from there, the players' state untouched. When the
  match is not stochastic and the key is in the cache, the record is fetched from the
  cache and the players are not touched.
\<close>

theorem zero_turns_empty_and_cacheable:
  assumes "Match_init X ps 0 g dc nz ma h0 = Inr (m, h1)" "reset_clears_history X"
    "cache_written_by_engine (cache m)"
  shows "cache_key m = (ps ! 0, ps ! 1, 0) \<and>
         (\<exists>m' h'. play X m h = Inr ([], m', h') \<and>
            (cache_update_required X m \<longrightarrow>
               data (cache m') (ps ! 0, ps ! 1, 0) = Some [] \<and>
               (\<forall>h2. play X m' h2 = Inr ([], m', h2))) \<and>
            (\<not> truthy (stochastic X m) \<and> cache_contains (cache m) (ps ! 0, ps ! 1, 0) \<longrightarrow>
               data (cache m) (ps ! 0, ps ! 1, 0) = Some [] \<and> m' = m\<lparr>result := []\<rparr> \<and> h' = h))"
proof -
  have f: "2 \<le> length ps" "turns m = 0" "cache_key m = (ps ! 0, ps ! 1, 0)" "players m = ps"
    using Match_init_fields [OF assms(1)] by simp_all
  have mem: "ps ! 0 \<in> set ps" "ps ! 1 \<in> set ps"
    using f(1) by (auto intro: nth_mem)
  have hit: "data (cache m) (ps ! 0, ps ! 1, 0) = Some r0 \<Longrightarrow> r0 = []" for r0
    using assms(3) by (fastforce simp: cache_written_by_engine_def)
  have n2: "\<not> length (players m) < 2"
    using f by simp
  obtain r m' h' where p: "play X m h = Inr (r, m', h')"
    using play_returns [of m X h] f by auto
  have r: "r = []"
  proof (cases "truthy (stochastic X m) \<or> \<not> cache_contains (cache m) (cache_key m)")
    case True
    then show ?thesis
      using p n2 f mem assms(2) by (auto simp: play_unfold [of X m h] Let_def fold_reset_history)
  next
    case False
    then obtain r0 where r0: "data (cache m) (cache_key m) = Some r0"
      by (auto simp: cache_contains_def)
    then show ?thesis
      using p False hit [of r0] f by (auto simp: play_unfold [of X m h])
  qed
  have k: "result m' = []" "cache_key m' = cache_key m" "noise m' = noise m" "players m' = players m"
    using play_keeps [OF p] r by simp_all
  have c: "cache m' = (if cache_update_required X m
                       then cache_setitem (cache m) (cache_key m) [] else cache m)"
    using play_cache_after [OF p] r by simp
  have w: "data (cache m') (ps ! 0, ps ! 1, 0) = Some [] \<and> (\<forall>h2. play X m' h2 = Inr ([], m', h2))"
    if e: "cache_update_required X m"
  proof -
    have d: "data (cache m') (cache_key m') = Some []"
      using c e k by (simp add: cache_setitem_def)
    have "\<not> truthy (stochastic X m')"
      using e k by (simp add: truthy_stochastic cache_update_required_iff)
    moreover have "m'\<lparr>result := []\<rparr> = m'"
      using k(1) by simp
    ultimately have "play X m' h2 = Inr ([], m', h2)" for h2
      using d by (simp add: play_unfold [of X m' h2] cache_contains_def)
    then show ?thesis
      using d k f by simp
  qed
  have g: "data (cache m) (ps ! 0, ps ! 1, 0) = Some [] \<and> m' = m\<lparr>result := []\<rparr> \<and> h' = h"
    if ns: "\<not> truthy (stochastic X m)" and cc: "cache_contains (cache m) (ps ! 0, ps ! 1, 0)"
  proof -
    obtain r0 where r0: "data (cache m) (ps ! 0, ps ! 1, 0) = Some r0"
      using cc by (auto simp: cache_contains_def)
    then show ?thesis
      using p ns cc hit [OF r0] f by (auto simp: play_unfold [of X m h])
  qed
  show ?thesis
    using f p r w g by auto
qed

theorem zero_turns_empty_and_cacheable_witness:
  "Match_init ex_ext [0, 1] 0 None None 0 None ex_h0 = Inr (ex_match 0 1 0 0, ex_h1) \<and>
   reset_clears_history ex_ext \<and> cache_written_by_engine (cache (ex_match 0 1 0 0)) \<and>
   cache_update_required ex_ext (ex_match 0 1 0 0) \<and>
   cache_key (ex_match 0 1 0 0) = (0, 1, 0) \<and>
   (\<exists>m' h'. play ex_ext (ex_match 0 1 0 0) ex_h2 = Inr ([], m', h') \<and>
      data (cache m') (0, 1, 0) = Some [] \<and> (\<forall>h2. play ex_ext m' h2 = Inr ([], m', h2))) \<and>
   Match_init ex_ext [0, 1] 0 None (Some ex_cache0) 0 None ex_h0 =
     Inr ((ex_match 0 1 0 0)\<lparr>cache := ex_cache0\<rparr>, ex_h1) \<and>
   cache_written_by_engine ex_cache0 \<and>
   \<not> truthy (stochastic ex_ext ((ex_match 0 1 0 0)\<lparr>cache := ex_cache0\<rparr>)) \<and>
   cache_contains ex_cache0 (0, 1, 0) \<and>
   play ex_ext ((ex_match 0 1 0 0)\<lparr>cache := ex_cache0\<rparr>) ex_h2 =
     Inr ([], (ex_match 0 1 0 0)\<lparr>cache := ex_cache0\<rparr>, ex_h2)"
proof -
  have d: "cache_written_by_engine (cache (ex_match 0 1 0 0))"
    by (simp add: ex_match_def new_cache_written_by_engine)
  have u: "cache_update_required ex_ext (ex_match 0 1 0 0)"
    by (simp add: cache_update_required_iff ex_match_def ex_ext_def DeterministicCache_new_def)
  have n: "[0, 1] ! 0 = (0::nat)" "[0, 1] ! 1 = (1::nat)"
    by simp_all
  have first: "cache_key (ex_match 0 1 0 0) = (0, 1, 0) \<and>
     (\<exists>m' h'. play ex_ext (ex_match 0 1 0 0) ex_h2 = Inr ([], m', h') \<and>
      data (cache m') (0, 1, 0) = Some [] \<and> (\<forall>h2. play ex_ext m' h2 = Inr ([], m', h2)))"
    using zero_turns_empty_and_cacheable [OF ex_constructs [of 0 0] ex_reset_clears_history d, of ex_h2] u
    unfolding n by blast
  have d0: "cache_written_by_engine ex_cache0"
    unfolding ex_cache0_def
    by (rule cache_setitem_written_by_engine [OF new_cache_written_by_engine]) simp
  then have d0': "cache_written_by_engine (cache ((ex_match 0 1 0 0)\<lparr>cache := ex_cache0\<rparr>))"
    by simp
  have s: "\<not> truthy (stochastic ex_ext ((ex_match 0 1 0 0)\<lparr>cache := ex_cache0\<rparr>))"
    by (simp add: truthy_stochastic ex_match_def ex_ext_def)
  have k: "cache_contains ex_cache0 (0, 1, 0)"
    by (simp add: cache_contains_def ex_cache0_def cache_setitem_def)
  then have k': "cache_contains (cache ((ex_match 0 1 0 0)\<lparr>cache := ex_cache0\<rparr>)) ([0, 1] ! 0, [0, 1] ! 1, 0)"
    by simp
  have e: "(ex_match 0 1 0 0)\<lparr>cache := ex_cache0, result := []\<rparr> = (ex_match 0 1 0 0)\<lparr>cache := ex_cache0\<rparr>"
    by (simp add: ex_match_def)
  have second: "play ex_ext ((ex_match 0 1 0 0)\<lparr>cache := ex_cache0\<rparr>) ex_h2 =
     Inr ([], (ex_match 0 1 0 0)\<lparr>cache := ex_cache0\<rparr>, ex_h2)"
    using zero_turns_empty_and_cacheable
      [OF ex_constructs_with_cache [of 0 ex_cache0 0] ex_reset_clears_history d0', of ex_h2] s k' e
    by auto
  show ?thesis
    using first second ex_constructs [of 0 0] ex_constructs_with_cache [of 0 ex_cache0 0]
      ex_reset_clears_history d u d0 s k
    by blast
qed

text \<open>
  C8 as stated fails when the cache handed to the constructor holds, under the key of
  the match, a record the engine did not write: \<^verbatim>\<open>play()\<close> of the match of no turns
  returns that record, which is not empty.
\<close>

theorem zero_turns_empty_counterexample:
  "Match_init ex_ext [0, 1] 0 None (Some ex_cache_foreign) 0 None ex_h0 =
     Inr ((ex_match 0 1 0 0)\<lparr>cache := ex_cache_foreign\<rparr>, ex_h1) \<and>
   turns ((ex_match 0 1 0 0)\<lparr>cache := ex_cache_foreign\<rparr>) = 0 \<and>
   play ex_ext ((ex_match 0 1 0 0)\<lparr>cache := ex_cache_foreign\<rparr>) ex_h1 =
     Inr ([(D, D)], (ex_match 0 1 0 0)\<lparr>cache := ex_cache_foreign, result := [(D, D)]\<rparr>, ex_h1) \<and>
   [(D, D)] \<noteq> ([] :: interactions)"
  using ex_constructs_with_cache [of 0 ex_cache_foreign 0] ex_plays_foreign_entry [of ex_h1]
  by (simp add: ex_match_def)

subsection \<open>C9: the cache key\<close>

text \<open>
  C9. The constructor sets the cache key to the first two players it is given and the
  turns. Assigning a list to \<^verbatim>\<open>players\<close> changes the players and neither the key nor the
  cache, and \<^verbatim>\<open>play()\<close> does not change the key. So a \<^verbatim>\<open>play()\<close> after such an assignment
  looks the record up, and stores it, under the key of the players the match was
  constructed with.
\<close>

theorem cache_key_fixed_at_construction:
  "(Match_init X ps t g dc nz ma h0 = Inr (m0, h1) \<longrightarrow> cache_key m0 = (ps ! 0, ps ! 1, t)) \<and>
   cache_key (fst (players_setter X m qs h)) = cache_key m \<and>
   cache (fst (players_setter X m qs h)) = cache m \<and>
   players (fst (players_setter X m qs h)) = qs \<and>
   (play X m h = Inr (r, m', h') \<longrightarrow> cache_key m' = cache_key m) \<and>
   (play X (fst (players_setter X m qs h)) h2 = Inr (r2, m2, h2') \<longrightarrow>
      cache_key m2 = cache_key m \<and>
      cache m2 = (if cache_update_required X (m\<lparr>players := qs\<rparr>)
                  then cache_setitem (cache m) (cache_key m) r2 else cache m) \<and>
      (\<not> truthy (stochastic X (m\<lparr>players := qs\<rparr>)) \<and> cache_contains (cache m) (cache_key m)
         \<longrightarrow> r2 = the (data (cache m) (cache_key m)) \<and> h2' = h2))"
proof -
  have s: "fst (players_setter X m qs h) = m\<lparr>players := qs\<rparr>"
    by (simp add: players_setter_def)
  have "play X (m\<lparr>players := qs\<rparr>) h2 = Inr (r2, m2, h2') \<Longrightarrow>
          cache_key m2 = cache_key m \<and>
          cache m2 = (if cache_update_required X (m\<lparr>players := qs\<rparr>)
                      then cache_setitem (cache m) (cache_key m) r2 else cache m)"
    using play_keeps(3) [of X "m\<lparr>players := qs\<rparr>" h2 r2 m2 h2']
      play_cache_after [of X "m\<lparr>players := qs\<rparr>" h2 r2 m2 h2'] by simp
  moreover have "play X (m\<lparr>players := qs\<rparr>) h2 = Inr (r2, m2, h2') \<Longrightarrow>
      \<not> truthy (stochastic X (m\<lparr>players := qs\<rparr>)) \<Longrightarrow> cache_contains (cache m) (cache_key m) \<Longrightarrow>
      r2 = the (data (cache m) (cache_key m)) \<and> h2' = h2"
    by (simp add: play_unfold [of X "m\<lparr>players := qs\<rparr>" h2])
  ultimately show ?thesis
    unfolding s using play_keeps(3) [of X m h r m' h']
    by (auto simp: Match_init_fields)
qed

text \<open>
  The match constructed for players 0 and 1, its players then set to 1 and 0: the record
  of player 1 against player 0 is stored under the key of players 0 and 1.
\<close>

theorem cache_key_fixed_at_construction_witness:
  "Match_init ex_ext [0, 1] 2 None None 0 None ex_h0 = Inr (ex_match 0 1 2 0, ex_h1) \<and>
   cache_key (ex_match 0 1 2 0) = (0, 1, 2) \<and>
   play ex_ext (ex_match 0 1 2 0) ex_h1 = Inr ([(C, D), (C, D)], ex_played, ex_h2) \<and>
   cache_key ex_played = (0, 1, 2) \<and>
   players (fst (players_setter ex_ext (ex_match 0 1 2 0) [1, 0] ex_h1)) = [1, 0] \<and>
   cache_key (fst (players_setter ex_ext (ex_match 0 1 2 0) [1, 0] ex_h1)) = (0, 1, 2) \<and>
   play ex_ext (fst (players_setter ex_ext (ex_match 0 1 2 0) [1, 0] ex_h1)) ex_h1 =
     Inr ([(D, C), (D, C)],
          (ex_match 0 1 2 0)\<lparr>players := [1, 0], result := [(D, C), (D, C)],
             cache := cache_setitem DeterministicCache_new (0, 1, 2) [(D, C), (D, C)]\<rparr>,
          ex_h2) \<and>
   data (cache_setitem DeterministicCache_new (0, 1, 2) [(D, C), (D, C)]) (0, 1, 2) =
     Some [(D, C), (D, C)] \<and>
   play ex_ext (fst (players_setter ex_ext ex_played [1, 0] ex_h2)) ex_h2 =
     Inr ([(C, D), (C, D)], ex_played\<lparr>players := [1, 0]\<rparr>, ex_h2)"
proof -
  have s: "fst (players_setter ex_ext (ex_match 0 1 2 0) [1, 0] ex_h1) = (ex_match 0 1 2 0)\<lparr>players := [1, 0]\<rparr>"
    "fst (players_setter ex_ext ex_played [1, 0] ex_h2) = ex_played\<lparr>players := [1, 0]\<rparr>"
    by (simp_all add: players_setter_def)
  have p: "play ex_ext (fst (players_setter ex_ext (ex_match 0 1 2 0) [1, 0] ex_h1)) ex_h1 =
     Inr ([(D, C), (D, C)],
          (ex_match 0 1 2 0)\<lparr>players := [1, 0], result := [(D, C), (D, C)],
             cache := cache_setitem DeterministicCache_new (0, 1, 2) [(D, C), (D, C)]\<rparr>,
          ex_h2)"
    unfolding s by (rule ex_plays_swapped)
  have q: "play ex_ext (fst (players_setter ex_ext ex_played [1, 0] ex_h2)) ex_h2 =
     Inr ([(C, D), (C, D)], ex_played\<lparr>players := [1, 0]\<rparr>, ex_h2)"
    unfolding s by (rule ex_replays_swapped)
  note first = cache_key_fixed_at_construction [of ex_ext "[0, 1]" 2 None None 0 None ex_h0
        "ex_match 0 1 2 0" ex_h1 "ex_match 0 1 2 0" "[1, 0]" ex_h1 "[(C, D), (C, D)]" ex_played ex_h2
        ex_h1 "[(D, C), (D, C)]"
        "(ex_match 0 1 2 0)\<lparr>players := [1, 0], result := [(D, C), (D, C)],
             cache := cache_setitem DeterministicCache_new (0, 1, 2) [(D, C), (D, C)]\<rparr>" ex_h2]
  note second = cache_key_fixed_at_construction [of ex_ext "[0, 1]" 2 None None 0 None ex_h0
        "ex_match 0 1 2 0" ex_h1 ex_played "[1, 0]" ex_h2 "[(C, D), (C, D)]" ex_played ex_h2
        ex_h2 "[(C, D), (C, D)]" "ex_played\<lparr>players := [1, 0]\<rparr>" ex_h2]
  have k: "cache_key (ex_match 0 1 2 0) = (0, 1, 2)"
    using first ex_constructs [of 2 0] by simp
  have k2: "cache_key ex_played = (0, 1, 2)"
    using first ex_plays k by simp
  have k3: "cache_key (fst (players_setter ex_ext (ex_match 0 1 2 0) [1, 0] ex_h1)) = (0, 1, 2)"
    "players (fst (players_setter ex_ext (ex_match 0 1 2 0) [1, 0] ex_h1)) = [1, 0]"
    using first k by simp_all
  have "\<not> truthy (stochastic ex_ext (ex_played\<lparr>players := [1, 0]\<rparr>))"
    by (simp add: truthy_stochastic ex_played_def ex_match_def ex_ext_def)
  moreover have "cache_contains (cache ex_played) (cache_key ex_played)"
    by (simp add: cache_contains_def ex_played_def ex_match_def cache_setitem_def)
  ultimately have r: "[(C, D), (C, D)] = the (data (cache ex_played) (cache_key ex_played))"
    using second q by blast
  show ?thesis
    using ex_constructs [of 2 0] k ex_plays k2 k3 p q r
    by (simp add: cache_setitem_def)
qed

subsection \<open>C10: explicit match attributes\<close>

text \<open>
  C10. A constructor given a \<^verbatim>\<open>match_attributes\<close> mapping stores that mapping and passes
  it, as it is, to each player in order; the defaults for length, game and noise are not
  added. With the empty mapping each player is passed no attribute at all. The setter of
  \<^verbatim>\<open>players\<close> passes the stored mapping likewise.
\<close>

theorem explicit_match_attributes_passed_as_given:
  "(Match_init X ps t g dc nz (Some ma) h = Inr (m, h') \<longrightarrow>
      match_attributes m = ma \<and> h' = fold (\<lambda>p. set_match_attributes X p ma) ps h) \<and>
   (Match_init X ps t g dc nz (Some []) h = Inr (m0, h0) \<longrightarrow>
      match_attributes m0 = [] \<and> h0 = fold (\<lambda>p. set_match_attributes X p []) ps h \<and>
      map_of (match_attributes m0) ''length'' = None \<and>
      map_of (match_attributes m0) ''game'' = None \<and>
      map_of (match_attributes m0) ''noise'' = None) \<and>
   snd (players_setter X m1 qs h1) =
      fold (\<lambda>p. set_match_attributes X p (match_attributes m1)) qs h1"
  by (auto simp: Match_init_unfold players_setter_def split: if_splits)

theorem explicit_match_attributes_passed_as_given_witness:
  "Match_init ex_ext [0, 1] 2 None None 0 (Some [(''length'', AttrInt 7)]) ex_h0 =
     Inr ((ex_match 0 1 2 0)\<lparr>match_attributes := [(''length'', AttrInt 7)]\<rparr>,
          ex_h0\<lparr>attr_log := [(0, [''length'']), (1, [''length''])]\<rparr>) \<and>
   Match_init ex_ext [0, 1] 2 None None 0 (Some []) ex_h0 =
     Inr ((ex_match 0 1 2 0)\<lparr>match_attributes := []\<rparr>, ex_h0\<lparr>attr_log := [(0, []), (1, [])]\<rparr>) \<and>
   fold (\<lambda>p. set_match_attributes ex_ext p []) [0, 1] ex_h0 = ex_h0\<lparr>attr_log := [(0, []), (1, [])]\<rparr> \<and>
   map_of (match_attributes ((ex_match 0 1 2 0)\<lparr>match_attributes := []\<rparr>)) ''length'' = None"
proof -
  have i: "Match_init ex_ext [0, 1] 2 None None 0 (Some []) ex_h0 =
     Inr ((ex_match 0 1 2 0)\<lparr>match_attributes := []\<rparr>, ex_h0\<lparr>attr_log := [(0, []), (1, [])]\<rparr>)"
    by (simp add: Match_init_unfold ex_match_def ex_ext_def ex_h0_def)
  have j: "Match_init ex_ext [0, 1] 2 None None 0 (Some [(''length'', AttrInt 7)]) ex_h0 =
     Inr ((ex_match 0 1 2 0)\<lparr>match_attributes := [(''length'', AttrInt 7)]\<rparr>,
          ex_h0\<lparr>attr_log := [(0, [''length'']), (1, [''length''])]\<rparr>)"
    by (simp add: Match_init_unfold ex_match_def ex_ext_def ex_h0_def)
  show ?thesis
    using explicit_match_attributes_passed_as_given [of ex_ext "[0, 1]" 2 None None 0
        "[(''length'', AttrInt 7)]" ex_h0
        "(ex_match 0 1 2 0)\<lparr>match_attributes := [(''length'', AttrInt 7)]\<rparr>"
        "ex_h0\<lparr>attr_log := [(0, [''length'']), (1, [''length''])]\<rparr>"
        "(ex_match 0 1 2 0)\<lparr>match_attributes := []\<rparr>" "ex_h0\<lparr>attr_log := [(0, []), (1, [])]\<rparr>"] i j
    by simp
qed

end
